theory Spec2Isabelle
  imports Main
begin

section \<open>JavaScript values\<close>

text \<open>
  The level identifiers and difficulty tags arrive as JSON and are passed around
  untyped by \<^verbatim>\<open>App.js\<close>. The scalar values are modelled as a datatype. Numbers are
  restricted to integers (no fractions, no NaN), which covers identifiers such as 1 and 2.
\<close>

datatype jsval = JUndefined | JNull | JBool bool | JNum int | JStr string

text \<open>Truthiness, as used by \<^verbatim>\<open>a && b\<close>.\<close>

fun truthy :: "jsval \<Rightarrow> bool" where
  "truthy JUndefined = False"
| "truthy JNull = False"
| "truthy (JBool b) = b"
| "truthy (JNum n) = (n \<noteq> 0)"
| "truthy (JStr s) = (s \<noteq> [])"

text \<open>Decimal notation of an integer, as a template literal prints it.\<close>

definition digit_char :: "nat \<Rightarrow> char" where
  "digit_char d = ''0123456789'' ! d"

function string_of_nat :: "nat \<Rightarrow> string" where
  "string_of_nat n =
     (if n < 10 then [digit_char n] else string_of_nat (n div 10) @ [digit_char (n mod 10)])"
  by pat_completeness auto
termination
  by (relation "measure (\<lambda>n. n)") auto

declare string_of_nat.simps [simp del]

definition string_of_int :: "int \<Rightarrow> string" where
  "string_of_int i = (if i < 0 then CHR ''-'' # string_of_nat (nat (- i)) else string_of_nat (nat i))"

text \<open>String conversion inside a template literal \<^verbatim>\<open>`${v}`\<close>.\<close>

fun toString :: "jsval \<Rightarrow> string" where
  "toString JUndefined = ''undefined''"
| "toString JNull = ''null''"
| "toString (JBool b) = (if b then ''true'' else ''false'')"
| "toString (JNum n) = string_of_int n"
| "toString (JStr s) = s"

text \<open>
  \<^verbatim>\<open>String.prototype.replace\<close> with a string pattern replaces the first occurrence only.
\<close>

fun replace_first :: "char \<Rightarrow> char \<Rightarrow> string \<Rightarrow> string" where
  "replace_first a b [] = []"
| "replace_first a b (c # cs) = (if c = a then b # cs else c # replace_first a b cs)"

section \<open>Data delivered by the server\<close>

record level =
  id_level :: jsval
  level_number :: int
  title :: string
  description :: string
  difficulty_level :: jsval
  estimated_duration_months :: int
  skills_to_develop :: "jsval list"
  projects_to_complete :: "jsval list"
  specialization_paths :: "string list"
  milestone_achievements :: "string list"

record insight =
  id_insight :: jsval
  specialization :: string
  market_size :: string
  growth_rate :: string
  avg_salary :: string
  key_trends :: "string list"
  major_companies :: "string list"
  future_outlook :: string

text \<open>
  The entries of a detail bundle are only listed by the modal; they are kept as an
  identifier and the heading the modal prints for them.
\<close>

record entry =
  id_entry :: jsval
  heading_entry :: string

record level_bundle =
  level :: level
  skills :: "entry list"
  courses :: "entry list"
  projects :: "entry list"
  roles :: "entry list"

text \<open>A request is rejected with an error: no answer, or an answer with a failure status.\<close>

datatype error = NetworkError string | HttpError nat

section \<open>Component state and effects\<close>

text \<open>
  The six \<^verbatim>\<open>useState\<close> cells of \<^verbatim>\<open>App\<close>, together with the two effects the component has
  on the outside: the lines written with \<^verbatim>\<open>console.error\<close> and the URLs requested with
  \<^verbatim>\<open>axios.get\<close>, both in the order of the calls.
\<close>

record app =
  roadmapData :: "level list"
  selectedLevel :: jsval
  levelDetails :: "level_bundle option"
  industryInsights :: "insight list"
  loading :: bool
  activeTab :: string
  console :: "(string \<times> error) list"
  requests :: "string list"

definition initial :: app where
  "initial = \<lparr> roadmapData = [], selectedLevel = JNull, levelDetails = None,
               industryInsights = [], loading = True, activeTab = ''roadmap'',
               console = [], requests = [] \<rparr>"

text \<open>
  \<^verbatim>\<open>BACKEND_URL\<close> is read from the environment and may be undefined; the template literal
  then prints \<^verbatim>\<open>undefined\<close>.
\<close>

definition API :: "string option \<Rightarrow> string" where
  "API BACKEND_URL =
     (case BACKEND_URL of None \<Rightarrow> ''undefined'' | Some u \<Rightarrow> u) @ ''/api''"

subsection \<open>fetchData\<close>

text \<open>
  \<^verbatim>\<open>Promise.all\<close> of two requests: fulfilled with both values when both are fulfilled,
  otherwise rejected with the reason of the request that is rejected first. When both
  are rejected the order is not determined by the program; the flag says whether the
  second one was rejected first.
\<close>

definition Promise_all :: "bool \<Rightarrow> error + 'a \<Rightarrow> error + 'b \<Rightarrow> error + ('a \<times> 'b)" where
  "Promise_all second_first r1 r2 =
     (case r1 of
        Inr a \<Rightarrow> (case r2 of Inr b \<Rightarrow> Inr (a, b) | Inl e2 \<Rightarrow> Inl e2)
      | Inl e1 \<Rightarrow> (case r2 of Inr b \<Rightarrow> Inl e1
                           | Inl e2 \<Rightarrow> Inl (if second_first then e2 else e1)))"

text \<open>
  An \<^verbatim>\<open>async\<close> function runs up to its \<^verbatim>\<open>await\<close>, and is resumed when the awaited promise
  settles. \<open>fetchData_start\<close> is the part before the \<^verbatim>\<open>await\<close> (both requests are issued),
  \<open>fetchData_resume\<close> the part after it: the rest of the \<^verbatim>\<open>try\<close> block, or the \<^verbatim>\<open>catch\<close>.
\<close>

definition fetchData_start :: "string option \<Rightarrow> app \<Rightarrow> app" where
  "fetchData_start BACKEND_URL s =
     s\<lparr>requests := requests s @ [API BACKEND_URL @ ''/roadmap'',
                                  API BACKEND_URL @ ''/industry-insights'']\<rparr>"

definition fetchData_resume :: "error + (level list \<times> insight list) \<Rightarrow> app \<Rightarrow> app" where
  "fetchData_resume settled s =
     (case settled of
        Inr (roadmapRes, insightsRes) \<Rightarrow>
          s\<lparr>roadmapData := roadmapRes, industryInsights := insightsRes, loading := False\<rparr>
      | Inl err \<Rightarrow>
          s\<lparr>console := console s @ [(''Error fetching data:'', err)], loading := False\<rparr>)"

text \<open>The whole call, given how the two requests end.\<close>

definition fetchData ::
  "string option \<Rightarrow> bool \<Rightarrow> error + level list \<Rightarrow> error + insight list \<Rightarrow> app \<Rightarrow> app" where
  "fetchData BACKEND_URL second_first r1 r2 s =
     fetchData_resume (Promise_all second_first r1 r2) (fetchData_start BACKEND_URL s)"

subsection \<open>fetchLevelDetails\<close>

definition fetchLevelDetails_start :: "string option \<Rightarrow> jsval \<Rightarrow> app \<Rightarrow> app" where
  "fetchLevelDetails_start BACKEND_URL levelId s =
     s\<lparr>requests := requests s @ [API BACKEND_URL @ ''/roadmap/level/'' @ toString levelId]\<rparr>"

definition fetchLevelDetails_resume :: "jsval \<Rightarrow> error + level_bundle \<Rightarrow> app \<Rightarrow> app" where
  "fetchLevelDetails_resume levelId settled s =
     (case settled of
        Inr response \<Rightarrow> s\<lparr>levelDetails := Some response, selectedLevel := levelId\<rparr>
      | Inl err \<Rightarrow> s\<lparr>console := console s @ [(''Error fetching level details:'', err)]\<rparr>)"

definition fetchLevelDetails :: "string option \<Rightarrow> jsval \<Rightarrow> error + level_bundle \<Rightarrow> app \<Rightarrow> app" where
  "fetchLevelDetails BACKEND_URL levelId settled s =
     fetchLevelDetails_resume levelId settled (fetchLevelDetails_start BACKEND_URL levelId s)"

subsection \<open>Lookup tables\<close>

text \<open>
  A \<^verbatim>\<open>switch\<close> compares with strict equality, so only the four strings select a case.
  The icons are written as the bytes of their UTF-8 encoding.
\<close>

definition getLevelColor :: "jsval \<Rightarrow> string" where
  "getLevelColor difficulty =
     (if difficulty = JStr ''beginner'' then ''from-green-400 to-green-600''
      else if difficulty = JStr ''intermediate'' then ''from-blue-400 to-blue-600''
      else if difficulty = JStr ''advanced'' then ''from-purple-400 to-purple-600''
      else if difficulty = JStr ''expert'' then ''from-red-400 to-red-600''
      else ''from-gray-400 to-gray-600'')"

definition icon_seedling :: string where
  "icon_seedling = [CHR 0xF0, CHR 0x9F, CHR 0x8C, CHR 0xB1]"

definition icon_rocket :: string where
  "icon_rocket = [CHR 0xF0, CHR 0x9F, CHR 0x9A, CHR 0x80]"

definition icon_high_voltage :: string where
  "icon_high_voltage = [CHR 0xE2, CHR 0x9A, CHR 0xA1]"

definition icon_crown :: string where
  "icon_crown = [CHR 0xF0, CHR 0x9F, CHR 0x91, CHR 0x91]"

definition icon_books :: string where
  "icon_books = [CHR 0xF0, CHR 0x9F, CHR 0x93, CHR 0x9A]"

definition getDifficultyIcon :: "jsval \<Rightarrow> string" where
  "getDifficultyIcon difficulty =
     (if difficulty = JStr ''beginner'' then icon_seedling
      else if difficulty = JStr ''intermediate'' then icon_rocket
      else if difficulty = JStr ''advanced'' then icon_high_voltage
      else if difficulty = JStr ''expert'' then icon_crown
      else icon_books)"

section \<open>Rendering\<close>

text \<open>
  The components are functions from the state to markup. The model keeps what the markup
  shows of the data and which handler arguments it binds, and leaves the fixed texts,
  the layout classes and the specialization badges out.
\<close>

subsection \<open>VisualRoadmap\<close>

record level_card =
  key_card :: jsval
  onClick_card :: jsval
  gradient_card :: string
  icon_card :: string
  number_card :: int
  difficulty_card :: jsval
  duration_card :: int
  title_card :: string
  description_card :: string
  skills_card :: nat
  projects_card :: nat
  border_card :: string

text \<open>
  One element of \<^verbatim>\<open>roadmapData.map(...)\<close>: the card of a level. Its click handler is
  \<^verbatim>\<open>() => fetchLevelDetails(level.id)\<close>; the circle is highlighted when
  \<^verbatim>\<open>selectedLevel === level.id\<close>.
\<close>

definition level_card_of :: "app \<Rightarrow> level \<Rightarrow> level_card" where
  "level_card_of s lv =
     \<lparr> key_card = id_level lv,
       onClick_card = id_level lv,
       gradient_card = getLevelColor (difficulty_level lv),
       icon_card = getDifficultyIcon (difficulty_level lv),
       number_card = level_number lv,
       difficulty_card = difficulty_level lv,
       duration_card = estimated_duration_months lv,
       title_card = title lv,
       description_card = description lv,
       skills_card = length (skills_to_develop lv),
       projects_card = length (projects_to_complete lv),
       border_card = (if selectedLevel s = id_level lv then ''border-yellow-400''
                      else ''border-gray-300'') \<rparr>"

definition VisualRoadmap :: "app \<Rightarrow> level_card list" where
  "VisualRoadmap s = map (level_card_of s) (roadmapData s)"

subsection \<open>IndustryInsights\<close>

record insight_card =
  key_insight_card :: jsval
  heading_insight_card :: string
  market_size_card :: string
  growth_rate_card :: string
  avg_salary_card :: string
  trends_card :: "string list"
  companies_card :: "string list"
  outlook_card :: string

definition insight_card_of :: "insight \<Rightarrow> insight_card" where
  "insight_card_of i =
     \<lparr> key_insight_card = id_insight i,
       heading_insight_card = replace_first (CHR ''_'') (CHR '' '') (specialization i),
       market_size_card = market_size i,
       growth_rate_card = growth_rate i,
       avg_salary_card = avg_salary i,
       trends_card = key_trends i,
       companies_card = major_companies i,
       outlook_card = future_outlook i \<rparr>"

definition IndustryInsights :: "app \<Rightarrow> insight_card list" where
  "IndustryInsights s = map insight_card_of (industryInsights s)"

subsection \<open>LevelDetails\<close>

record modal =
  heading_modal :: string
  description_modal :: string
  skills_modal :: "entry list"
  courses_modal :: "entry list"
  projects_modal :: "entry list"
  roles_modal :: "entry list"
  milestones_modal :: "string list"

text \<open>The component returns \<^verbatim>\<open>null\<close> when \<^verbatim>\<open>levelDetails\<close> is null, and the modal otherwise.\<close>

definition LevelDetails :: "app \<Rightarrow> modal option" where
  "LevelDetails s =
     (case levelDetails s of
        None \<Rightarrow> None
      | Some d \<Rightarrow>
          Some \<lparr> heading_modal =
                   title (level d) @ '' - Level '' @ string_of_int (level_number (level d)),
                 description_modal = description (level d),
                 skills_modal = skills d,
                 courses_modal = courses d,
                 projects_modal = projects d,
                 roles_modal = roles d,
                 milestones_modal = milestone_achievements (level d) \<rparr>)"

subsection \<open>App\<close>

text \<open>
  What a JSX slot \<^verbatim>\<open>{v && <C />}\<close> puts on the page. When \<open>v\<close> is truthy the slot holds the
  component's result. Otherwise it holds \<open>v\<close> itself: React shows nothing for \<^verbatim>\<open>false\<close>,
  \<^verbatim>\<open>null\<close>, \<^verbatim>\<open>undefined\<close> and the empty string, and prints the number 0 as text.
\<close>

datatype 'a slot = Empty | Text string | Elem 'a

definition jsx_and :: "jsval \<Rightarrow> 'a slot \<Rightarrow> 'a slot" where
  "jsx_and v component =
     (if truthy v then component
      else (case v of JNum n \<Rightarrow> Text (toString v) | _ \<Rightarrow> Empty))"

record page =
  roadmap_tab_active :: bool
  insights_tab_active :: bool
  roadmap_slot :: "level_card list slot"
  insights_slot :: "insight_card list slot"
  modal_slot :: "modal slot"

datatype view = Spinner | Page page

definition App :: "app \<Rightarrow> view" where
  "App s =
     (if loading s then Spinner
      else Page
        \<lparr> roadmap_tab_active = (activeTab s = ''roadmap''),
          insights_tab_active = (activeTab s = ''insights''),
          roadmap_slot = jsx_and (JBool (activeTab s = ''roadmap'')) (Elem (VisualRoadmap s)),
          insights_slot = jsx_and (JBool (activeTab s = ''insights'')) (Elem (IndustryInsights s)),
          modal_slot = jsx_and (selectedLevel s)
                         (case LevelDetails s of None \<Rightarrow> Empty | Some m \<Rightarrow> Elem m) \<rparr>)"

text \<open>Counting what is on the page.\<close>

fun shown :: "'a slot \<Rightarrow> nat" where
  "shown (Elem x) = 1"
| "shown (Text t) = 0"
| "shown Empty = 0"

fun panels_rendered :: "view \<Rightarrow> nat" where
  "panels_rendered Spinner = 0"
| "panels_rendered (Page p) = shown (roadmap_slot p) + shown (insights_slot p)"

fun detail_views :: "view \<Rightarrow> nat" where
  "detail_views Spinner = 0"
| "detail_views (Page p) = shown (modal_slot p)"

fun cards_shown :: "view \<Rightarrow> level_card list" where
  "cards_shown Spinner = []"
| "cards_shown (Page p) = (case roadmap_slot p of Elem cs \<Rightarrow> cs | Text t \<Rightarrow> [] | Empty \<Rightarrow> [])"

fun insights_shown :: "view \<Rightarrow> insight_card list" where
  "insights_shown Spinner = []"
| "insights_shown (Page p) = (case insights_slot p of Elem cs \<Rightarrow> cs | Text t \<Rightarrow> [] | Empty \<Rightarrow> [])"

fun modal_shown :: "view \<Rightarrow> modal slot" where
  "modal_shown Spinner = Empty"
| "modal_shown (Page p) = modal_slot p"

fun nav_shown :: "view \<Rightarrow> bool" where
  "nav_shown Spinner = False"
| "nav_shown (Page p) = True"

section \<open>Event handlers and the event loop\<close>

definition setActiveTab :: "string \<Rightarrow> app \<Rightarrow> app" where
  "setActiveTab t s = s\<lparr>activeTab := t\<rparr>"

text \<open>The close button of the modal: \<^verbatim>\<open>setSelectedLevel(null); setLevelDetails(null);\<close>\<close>

definition close_onClick :: "app \<Rightarrow> app" where
  "close_onClick s = s\<lparr>selectedLevel := JNull, levelDetails := None\<rparr>"

text \<open>
  The component together with the calls that are suspended at an \<^verbatim>\<open>await\<close>. Mounting runs
  the effect, which starts \<^verbatim>\<open>fetchData\<close>.
\<close>

datatype pending = AwaitData | AwaitLevel jsval

record sys =
  app_of :: app
  awaiting :: "pending list"

definition mount :: "string option \<Rightarrow> sys" where
  "mount BACKEND_URL = \<lparr> app_of = fetchData_start BACKEND_URL initial, awaiting = [AwaitData] \<rparr>"

text \<open>
  One turn of the event loop: an awaited promise settles and its call is resumed, or the
  user clicks something that the current page shows. A request that never settles simply
  stays in \<open>awaiting\<close>. The overlay of the modal does not take the page under it away, so
  cards and tabs stay clickable here while a detail view is open: the relation allows at
  least the runs a browser allows.
\<close>

inductive step :: "string option \<Rightarrow> sys \<Rightarrow> sys \<Rightarrow> bool" for BACKEND_URL where
  data_settled:
    "AwaitData \<in> set (awaiting c) \<Longrightarrow>
     step BACKEND_URL c
       \<lparr> app_of = fetchData_resume (Promise_all second_first r1 r2) (app_of c),
         awaiting = remove1 AwaitData (awaiting c) \<rparr>"
| level_settled:
    "AwaitLevel levelId \<in> set (awaiting c) \<Longrightarrow>
     step BACKEND_URL c
       \<lparr> app_of = fetchLevelDetails_resume levelId settled (app_of c),
         awaiting = remove1 (AwaitLevel levelId) (awaiting c) \<rparr>"
| roadmap_tab_clicked:
    "nav_shown (App (app_of c)) \<Longrightarrow>
     step BACKEND_URL c (c\<lparr>app_of := setActiveTab ''roadmap'' (app_of c)\<rparr>)"
| insights_tab_clicked:
    "nav_shown (App (app_of c)) \<Longrightarrow>
     step BACKEND_URL c (c\<lparr>app_of := setActiveTab ''insights'' (app_of c)\<rparr>)"
| card_clicked:
    "clicked \<in> set (cards_shown (App (app_of c))) \<Longrightarrow>
     step BACKEND_URL c
       \<lparr> app_of = fetchLevelDetails_start BACKEND_URL (onClick_card clicked) (app_of c),
         awaiting = awaiting c @ [AwaitLevel (onClick_card clicked)] \<rparr>"
| close_clicked:
    "detail_views (App (app_of c)) = 1 \<Longrightarrow>
     step BACKEND_URL c (c\<lparr>app_of := close_onClick (app_of c)\<rparr>)"

inductive reachable :: "string option \<Rightarrow> sys \<Rightarrow> bool" for BACKEND_URL where
  mounted: "reachable BACKEND_URL (mount BACKEND_URL)"
| stepped: "reachable BACKEND_URL c \<Longrightarrow> step BACKEND_URL c c' \<Longrightarrow> reachable BACKEND_URL c'"

code_pred step .

code_pred reachable .

section \<open>A concrete run\<close>

text \<open>
  The scenario of the specification: the server delivers two levels with the identifiers
  1 and 2, both are shown as cards, the card of level 2 is clicked and the server answers
  with the bundle of level 2. A second run has a level whose identifier is the number 0.
\<close>

definition backend :: "string option" where
  "backend = Some ''http://backend''"

definition level0 :: level where
  "level0 = \<lparr> id_level = JNum 0, level_number = 0, title = ''Orientation'',
              description = ''What the field is about'',
              difficulty_level = JStr ''beginner'', estimated_duration_months = 1,
              skills_to_develop = [], projects_to_complete = [],
              specialization_paths = [], milestone_achievements = [] \<rparr>"

definition level1 :: level where
  "level1 = \<lparr> id_level = JNum 1, level_number = 1, title = ''Foundation'',
              description = ''Electronics and programming basics'',
              difficulty_level = JStr ''beginner'', estimated_duration_months = 6,
              skills_to_develop = [JNum 11, JNum 12], projects_to_complete = [JNum 21],
              specialization_paths = [''smart_home''], milestone_achievements = [''First sensor''] \<rparr>"

definition level2 :: level where
  "level2 = \<lparr> id_level = JNum 2, level_number = 2, title = ''Connectivity'',
              description = ''Protocols and gateways'',
              difficulty_level = JStr ''intermediate'', estimated_duration_months = 8,
              skills_to_develop = [JNum 13], projects_to_complete = [JNum 22, JNum 23],
              specialization_paths = [''industrial_iot''], milestone_achievements = [] \<rparr>"

definition insight1 :: insight where
  "insight1 = \<lparr> id_insight = JNum 1, specialization = ''smart_home'', market_size = ''$100B'',
                growth_rate = ''12%'', avg_salary = ''$90k'', key_trends = [''Matter''],
                major_companies = [], future_outlook = ''Growing'' \<rparr>"

definition bundle0 :: level_bundle where
  "bundle0 = \<lparr> level = level0, skills = [], courses = [], projects = [], roles = [] \<rparr>"

definition bundle1 :: level_bundle where
  "bundle1 = \<lparr> level = level1, skills = [], courses = [], projects = [], roles = [] \<rparr>"

definition bundle2 :: level_bundle where
  "bundle2 = \<lparr> level = level2, skills = [\<lparr> id_entry = JNum 13, heading_entry = ''MQTT'' \<rparr>],
               courses = [], projects = [], roles = [] \<rparr>"

definition loaded :: sys where
  "loaded = \<lparr> app_of = fetchData_resume (Inr ([level1, level2], [insight1])) (app_of (mount backend)),
              awaiting = [] \<rparr>"

definition clicked2 :: sys where
  "clicked2 = \<lparr> app_of = fetchLevelDetails_start backend (JNum 2) (app_of loaded),
                awaiting = [AwaitLevel (JNum 2)] \<rparr>"

definition opened2 :: sys where
  "opened2 = \<lparr> app_of = fetchLevelDetails_resume (JNum 2) (Inr bundle2) (app_of clicked2),
               awaiting = [] \<rparr>"

definition loaded0 :: sys where
  "loaded0 = \<lparr> app_of = fetchData_resume (Inr ([level0, level1], [])) (app_of (mount backend)),
               awaiting = [] \<rparr>"

definition clicked0 :: sys where
  "clicked0 = \<lparr> app_of = fetchLevelDetails_start backend (JNum 0) (app_of loaded0),
                awaiting = [AwaitLevel (JNum 0)] \<rparr>"

definition opened0 :: sys where
  "opened0 = \<lparr> app_of = fetchLevelDetails_resume (JNum 0) (Inr bundle0) (app_of clicked0),
               awaiting = [] \<rparr>"

section \<open>Auxiliary facts\<close>

lemmas handler_defs =
  fetchData_def fetchData_start_def fetchData_resume_def
  fetchLevelDetails_def fetchLevelDetails_start_def fetchLevelDetails_resume_def
  setActiveTab_def close_onClick_def

lemma Promise_all_Inl:
  "isl r1 \<or> isl r2 \<Longrightarrow>
   \<exists>err. Promise_all second_first r1 r2 = Inl err \<and> (r1 = Inl err \<or> r2 = Inl err)"
  by (cases r1; cases r2) (simp_all add: Promise_all_def)

lemma Promise_all_Inr:
  "Promise_all second_first (Inr a) (Inr b) = Inr (a, b)"
  by (simp add: Promise_all_def)

lemma string_of_int_2: "string_of_int 2 = ''2''"
  by (simp add: string_of_int_def string_of_nat.simps digit_char_def)

subsection \<open>What the page shows\<close>

lemma cards_shown_not_loading:
  "clicked \<in> set (cards_shown (App s)) \<Longrightarrow> \<not> loading s"
  by (cases "loading s") (simp_all add: App_def)

lemma panels_rendered_App:
  "panels_rendered (App s) =
     (if loading s then 0
      else (if activeTab s = ''roadmap'' then 1 else 0) + (if activeTab s = ''insights'' then 1 else 0))"
  by (simp add: App_def jsx_and_def)

lemma detail_views_App:
  "detail_views (App s) =
     (if \<not> loading s \<and> truthy (selectedLevel s) \<and> levelDetails s \<noteq> None then 1 else 0)"
  by (cases "selectedLevel s")
     (auto simp: App_def jsx_and_def LevelDetails_def split: option.splits)

text \<open>The page is a function of the six state cells; the effects do not show.\<close>

lemma App_cells:
  assumes "roadmapData s' = roadmapData s" "selectedLevel s' = selectedLevel s"
    "levelDetails s' = levelDetails s" "industryInsights s' = industryInsights s"
    "loading s' = loading s" "activeTab s' = activeTab s"
  shows "App s' = App s"
proof -
  have "level_card_of s' = level_card_of s"
    by (simp add: fun_eq_iff level_card_of_def assms)
  then show ?thesis
    by (simp add: App_def VisualRoadmap_def IndustryInsights_def LevelDetails_def assms)
qed

subsection \<open>Invariants of the event loop\<close>

lemma step_activeTab:
  assumes "step BACKEND_URL c c'"
    and "activeTab (app_of c) = ''roadmap'' \<or> activeTab (app_of c) = ''insights''"
  shows "activeTab (app_of c') = ''roadmap'' \<or> activeTab (app_of c') = ''insights''"
  using assms
  by (induction rule: step.induct) (auto simp: handler_defs split: sum.splits prod.splits)

text \<open>
  While the spinner is up no card can be clicked, so no level request is in flight; and
  nothing sets the loading flag again once it is false.
\<close>

lemma step_loading:
  assumes "step BACKEND_URL c c'"
    and "loading (app_of c) \<longrightarrow> (\<forall>x. AwaitLevel x \<notin> set (awaiting c))"
  shows "loading (app_of c') \<longrightarrow> (\<forall>x. AwaitLevel x \<notin> set (awaiting c'))"
  using assms
proof (induction rule: step.induct)
  case (data_settled c second_first r1 r2)
  then show ?case by (simp add: handler_defs split: sum.splits prod.splits)
next
  case (level_settled levelId c settled)
  then show ?case
    by (auto simp: handler_defs split: sum.splits dest: notin_set_remove1)
next
  case (card_clicked clicked c)
  then show ?case
    by (auto simp: handler_defs dest: cards_shown_not_loading)
qed (simp_all add: handler_defs)

lemma reachable_activeTab:
  "reachable BACKEND_URL c \<Longrightarrow>
   activeTab (app_of c) = ''roadmap'' \<or> activeTab (app_of c) = ''insights''"
proof (induction rule: reachable.induct)
  case mounted
  show ?case by (simp add: mount_def fetchData_start_def initial_def)
next
  case (stepped c c')
  then show ?case using step_activeTab by blast
qed

lemma reachable_loading:
  "reachable BACKEND_URL c \<Longrightarrow>
   loading (app_of c) \<longrightarrow> (\<forall>x. AwaitLevel x \<notin> set (awaiting c))"
proof (induction rule: reachable.induct)
  case mounted
  show ?case by (simp add: mount_def)
next
  case (stepped c c')
  then show ?case using step_loading by blast
qed

subsection \<open>The concrete runs are runs of the event loop\<close>

lemma step_loaded: "step backend (mount backend) loaded"
  using step.data_settled [of "mount backend" backend False "Inr [level1, level2]" "Inr [insight1]"]
  by (simp add: loaded_def mount_def Promise_all_def)

lemma cards_loaded: "cards_shown (App (app_of loaded)) = VisualRoadmap (app_of loaded)"
  by (simp add: loaded_def App_def jsx_and_def fetchData_resume_def mount_def
      fetchData_start_def initial_def)

lemma card2_shown:
  "level_card_of (app_of loaded) level2 \<in> set (cards_shown (App (app_of loaded)))"
  by (simp add: cards_loaded VisualRoadmap_def) (simp add: loaded_def fetchData_resume_def)

lemma step_clicked2: "step backend loaded clicked2"
  using step.card_clicked [OF card2_shown, of backend]
  by (simp add: clicked2_def level_card_of_def level2_def loaded_def)

lemma step_opened2: "step backend clicked2 opened2"
  using step.level_settled [of "JNum 2" clicked2 backend "Inr bundle2"]
  by (simp add: clicked2_def opened2_def)

lemma reachable_clicked2: "reachable backend clicked2"
  by (rule reachable.stepped [OF reachable.stepped [OF reachable.mounted step_loaded] step_clicked2])

lemma reachable_opened2: "reachable backend opened2"
  by (rule reachable.stepped [OF reachable_clicked2 step_opened2])

lemma step_loaded0: "step backend (mount backend) loaded0"
  using step.data_settled [of "mount backend" backend False "Inr [level0, level1]" "Inr []"]
  by (simp add: loaded0_def mount_def Promise_all_def)

lemma step_clicked0: "step backend loaded0 clicked0"
proof -
  have "level_card_of (app_of loaded0) level0 \<in> set (cards_shown (App (app_of loaded0)))"
    by (simp add: loaded0_def App_def jsx_and_def fetchData_resume_def mount_def
        fetchData_start_def initial_def VisualRoadmap_def)
  from step.card_clicked [OF this, of backend] show ?thesis
    by (simp add: clicked0_def level_card_of_def level0_def loaded0_def)
qed

lemma step_opened0: "step backend clicked0 opened0"
  using step.level_settled [of "JNum 0" clicked0 backend "Inr bundle0"]
  by (simp add: clicked0_def opened0_def)

lemma reachable_opened0: "reachable backend opened0"
  by (rule reachable.stepped [OF reachable.stepped [OF reachable.stepped
        [OF reachable.mounted step_loaded0] step_clicked0] step_opened0])

section \<open>Properties\<close>

subsection \<open>The initial fetch\<close>

text \<open>
  C1. Whatever the outcome of the two startup requests (both fulfilled, or either one
  rejected, in either order), the loading flag is false once \<^verbatim>\<open>fetchData\<close> has run to its
  end; in particular a failed initial fetch clears the flag.
\<close>

theorem C1_fetchData_clears_loading:
  "loading (fetchData BACKEND_URL second_first r1 r2 s) = False"
  by (cases r1; cases r2)
     (simp_all add: fetchData_def fetchData_resume_def Promise_all_def split: prod.splits)

text \<open>
  C2, as stated: for every request the program issues, if the request fails then its error
  is logged and the loading flag is cleared. This does not hold for the request that is
  rejected second when both startup requests fail: \<^verbatim>\<open>Promise.all\<close> hands only the first
  rejection to the \<^verbatim>\<open>catch\<close> block, which logs one line. Below the roadmap request is
  rejected first and the error of the insights request never reaches the log.
\<close>

theorem C2_second_rejection_not_logged:
  "console (fetchData backend False (Inl (NetworkError ''roadmap''))
              (Inl (NetworkError ''insights'')) initial)
     = [(''Error fetching data:'', NetworkError ''roadmap'')] \<and>
   (''Error fetching data:'', NetworkError ''insights'')
     \<notin> set (console (fetchData backend False (Inl (NetworkError ''roadmap''))
                         (Inl (NetworkError ''insights'')) initial))"
  by (simp add: handler_defs Promise_all_def initial_def)

text \<open>
  C2, amended. When a startup request fails, \<^verbatim>\<open>fetchData\<close> logs exactly one line, carrying
  the rejection that \<^verbatim>\<open>Promise.all\<close> reports (the error of a failed request; the first one
  when both fail), and the loading flag is false afterwards. When a level-detail request
  fails, the handler of \<^verbatim>\<open>fetchLevelDetails\<close> logs exactly one line carrying its error; it
  does not write the loading flag, which is false after the handler because it is false
  in every state of the event loop in which a level-detail request is in flight.
\<close>

theorem C2_failure_logged_loading_false:
  "(isl r1 \<or> isl r2 \<longrightarrow>
      (\<exists>err. Promise_all second_first r1 r2 = Inl err \<and> (r1 = Inl err \<or> r2 = Inl err) \<and>
             console (fetchData BACKEND_URL second_first r1 r2 s)
               = console s @ [(''Error fetching data:'', err)]) \<and>
      \<not> loading (fetchData BACKEND_URL second_first r1 r2 s)) \<and>
   (reachable BACKEND_URL c \<and> AwaitLevel levelId \<in> set (awaiting c) \<longrightarrow>
      console (fetchLevelDetails_resume levelId (Inl err') (app_of c))
        = console (app_of c) @ [(''Error fetching level details:'', err')] \<and>
      \<not> loading (fetchLevelDetails_resume levelId (Inl err') (app_of c)))"
proof (intro conjI impI)
  assume "isl r1 \<or> isl r2"
  then obtain err where e: "Promise_all second_first r1 r2 = Inl err" "r1 = Inl err \<or> r2 = Inl err"
    using Promise_all_Inl by blast
  have "console (fetchData BACKEND_URL second_first r1 r2 s)
          = console s @ [(''Error fetching data:'', err)]"
    by (simp add: fetchData_def fetchData_resume_def fetchData_start_def e(1))
  with e show "\<exists>err. Promise_all second_first r1 r2 = Inl err \<and> (r1 = Inl err \<or> r2 = Inl err) \<and>
             console (fetchData BACKEND_URL second_first r1 r2 s)
               = console s @ [(''Error fetching data:'', err)]"
    by blast
next
  show "\<not> loading (fetchData BACKEND_URL second_first r1 r2 s)"
    by (simp add: fetchData_def fetchData_resume_def split: sum.splits prod.splits)
next
  show "console (fetchLevelDetails_resume levelId (Inl err') (app_of c))
        = console (app_of c) @ [(''Error fetching level details:'', err')]"
    by (simp add: fetchLevelDetails_resume_def)
next
  assume "reachable BACKEND_URL c \<and> AwaitLevel levelId \<in> set (awaiting c)"
  then have "\<not> loading (app_of c)"
    using reachable_loading by blast
  then show "\<not> loading (fetchLevelDetails_resume levelId (Inl err') (app_of c))"
    by (simp add: fetchLevelDetails_resume_def)
qed

theorem C2_failure_logged_loading_false_witness:
  "isl (Inl (HttpError 500) :: error + level list) \<and>
   console (fetchData backend False (Inl (HttpError 500)) (Inr [insight1]) initial)
     = [(''Error fetching data:'', HttpError 500)] \<and>
   \<not> loading (fetchData backend False (Inl (HttpError 500)) (Inr [insight1]) initial) \<and>
   reachable backend clicked2 \<and> AwaitLevel (JNum 2) \<in> set (awaiting clicked2) \<and>
   console (fetchLevelDetails_resume (JNum 2) (Inl (HttpError 404)) (app_of clicked2))
     = [(''Error fetching level details:'', HttpError 404)] \<and>
   \<not> loading (fetchLevelDetails_resume (JNum 2) (Inl (HttpError 404)) (app_of clicked2))"
proof -
  have a: "AwaitLevel (JNum 2) \<in> set (awaiting clicked2)"
    by (simp add: clicked2_def)
  have k: "console (app_of clicked2) = []"
    by (simp add: clicked2_def loaded_def mount_def initial_def handler_defs)
  have p: "Promise_all False (Inl (HttpError 500) :: error + level list) (Inr [insight1])
             = Inl (HttpError 500)"
    by (simp add: Promise_all_def)
  show ?thesis
    using C2_failure_logged_loading_false
            [of "Inl (HttpError 500)" "Inr [insight1]" False backend initial clicked2
                "JNum 2" "HttpError 404"]
      reachable_clicked2 a k p
    by (simp add: initial_def)
qed

text \<open>
  C3. When both startup requests are fulfilled, after \<^verbatim>\<open>fetchData\<close> the loading flag is
  false, \<^verbatim>\<open>roadmapData\<close> is the roadmap response and \<^verbatim>\<open>industryInsights\<close> the insights
  response; \<^verbatim>\<open>VisualRoadmap\<close> produces one card per level and \<^verbatim>\<open>IndustryInsights\<close> one card
  per insight, in the order of the response, and the page shows the cards of the panel
  of the active tab.
\<close>

theorem C3_successful_fetch_renders_all_items:
  "let s' = fetchData BACKEND_URL second_first (Inr levels) (Inr insights) s in
     loading s' = False \<and> roadmapData s' = levels \<and> industryInsights s' = insights \<and>
     length (VisualRoadmap s') = length levels \<and>
     map key_card (VisualRoadmap s') = map id_level levels \<and>
     length (IndustryInsights s') = length insights \<and>
     map key_insight_card (IndustryInsights s') = map id_insight insights \<and>
     cards_shown (App s') = (if activeTab s = ''roadmap'' then VisualRoadmap s' else []) \<and>
     insights_shown (App s') = (if activeTab s = ''insights'' then IndustryInsights s' else [])"
  by (simp add: Let_def fetchData_def fetchData_resume_def fetchData_start_def Promise_all_Inr
      VisualRoadmap_def IndustryInsights_def level_card_of_def insight_card_of_def
      App_def jsx_and_def comp_def)

text \<open>
  C9. The initial fetch is all or nothing: if either startup request is rejected, neither
  collection is stored. \<^verbatim>\<open>roadmapData\<close> and \<^verbatim>\<open>industryInsights\<close> keep the values they had,
  which for the fetch started on mounting are the initial empty arrays.
\<close>

theorem C9_failed_fetch_stores_nothing:
  "isl r1 \<or> isl r2 \<Longrightarrow>
     roadmapData (fetchData BACKEND_URL second_first r1 r2 s) = roadmapData s \<and>
     industryInsights (fetchData BACKEND_URL second_first r1 r2 s) = industryInsights s \<and>
     roadmapData (fetchData BACKEND_URL second_first r1 r2 initial) = [] \<and>
     industryInsights (fetchData BACKEND_URL second_first r1 r2 initial) = []"
proof -
  assume "isl r1 \<or> isl r2"
  then obtain err where "Promise_all second_first r1 r2 = Inl err"
    using Promise_all_Inl by blast
  then show ?thesis
    by (simp add: fetchData_def fetchData_resume_def fetchData_start_def initial_def)
qed

theorem C9_failed_fetch_stores_nothing_witness:
  "isl (Inl (NetworkError ''timeout'') :: error + insight list) \<and>
   roadmapData (fetchData backend False (Inr [level1, level2])
                  (Inl (NetworkError ''timeout'')) initial) = [] \<and>
   industryInsights (fetchData backend False (Inr [level1, level2])
                       (Inl (NetworkError ''timeout'')) initial) = []"
proof -
  have h: "isl (Inr [level1, level2] :: error + level list)
             \<or> isl (Inl (NetworkError ''timeout'') :: error + insight list)"
    by simp
  have "isl (Inl (NetworkError ''timeout'') :: error + insight list)"
    by simp
  with C9_failed_fetch_stores_nothing [OF h, of backend False initial] show ?thesis
    by blast
qed

subsection \<open>Selecting a level\<close>

text \<open>
  C4. The card rendered for a level binds \<^verbatim>\<open>fetchLevelDetails\<close> to that level's identifier,
  so clicking the card of level X starts \<^verbatim>\<open>fetchLevelDetails(X)\<close>. The call requests the
  URL \<^verbatim>\<open>API/roadmap/level/X\<close> and, when the request is fulfilled, stores the returned
  bundle in \<^verbatim>\<open>levelDetails\<close> and sets \<^verbatim>\<open>selectedLevel\<close> to X.
\<close>

theorem C4_card_click_fetches_level_bundle:
  "map onClick_card (VisualRoadmap s) = map id_level (roadmapData s) \<and>
   (lv \<in> set (roadmapData s) \<longrightarrow>
      level_card_of s lv \<in> set (VisualRoadmap s) \<and> onClick_card (level_card_of s lv) = id_level lv) \<and>
   (clicked \<in> set (cards_shown (App (app_of c))) \<longrightarrow>
      step BACKEND_URL c
        \<lparr> app_of = fetchLevelDetails_start BACKEND_URL (onClick_card clicked) (app_of c),
          awaiting = awaiting c @ [AwaitLevel (onClick_card clicked)] \<rparr>) \<and>
   requests (fetchLevelDetails_start BACKEND_URL X s)
     = requests s @ [API BACKEND_URL @ ''/roadmap/level/'' @ toString X] \<and>
   requests (fetchLevelDetails BACKEND_URL X (Inr response) s)
     = requests s @ [API BACKEND_URL @ ''/roadmap/level/'' @ toString X] \<and>
   levelDetails (fetchLevelDetails BACKEND_URL X (Inr response) s) = Some response \<and>
   selectedLevel (fetchLevelDetails BACKEND_URL X (Inr response) s) = X"
proof (intro conjI impI)
  show "map onClick_card (VisualRoadmap s) = map id_level (roadmapData s)"
    by (simp add: VisualRoadmap_def level_card_of_def comp_def)
  show "level_card_of s lv \<in> set (VisualRoadmap s)" if "lv \<in> set (roadmapData s)"
    using that by (simp add: VisualRoadmap_def)
  show "onClick_card (level_card_of s lv) = id_level lv"
    by (simp add: level_card_of_def)
  show "step BACKEND_URL c
        \<lparr> app_of = fetchLevelDetails_start BACKEND_URL (onClick_card clicked) (app_of c),
          awaiting = awaiting c @ [AwaitLevel (onClick_card clicked)] \<rparr>"
    if "clicked \<in> set (cards_shown (App (app_of c)))"
    using that by (rule step.card_clicked)
qed (simp_all add: fetchLevelDetails_def fetchLevelDetails_start_def fetchLevelDetails_resume_def)

theorem C4_card_click_fetches_level_bundle_witness:
  "level2 \<in> set (roadmapData (app_of loaded)) \<and>
   level_card_of (app_of loaded) level2 \<in> set (cards_shown (App (app_of loaded))) \<and>
   onClick_card (level_card_of (app_of loaded) level2) = JNum 2 \<and>
   step backend loaded clicked2 \<and>
   requests (fetchLevelDetails backend (JNum 2) (Inr bundle2) (app_of loaded))
     = [''http://backend/api/roadmap'', ''http://backend/api/industry-insights'',
        ''http://backend/api/roadmap/level/2''] \<and>
   levelDetails (fetchLevelDetails backend (JNum 2) (Inr bundle2) (app_of loaded)) = Some bundle2 \<and>
   selectedLevel (fetchLevelDetails backend (JNum 2) (Inr bundle2) (app_of loaded)) = JNum 2"
proof -
  have m: "level2 \<in> set (roadmapData (app_of loaded))"
    by (simp add: loaded_def fetchData_resume_def)
  have i: "onClick_card (level_card_of (app_of loaded) level2) = JNum 2"
    by (simp add: level_card_of_def level2_def)
  have r: "requests (app_of loaded)
             = [''http://backend/api/roadmap'', ''http://backend/api/industry-insights'']"
    by (simp add: loaded_def mount_def initial_def fetchData_resume_def fetchData_start_def
        API_def backend_def)
  have u: "API backend @ ''/roadmap/level/'' @ toString (JNum 2)
             = ''http://backend/api/roadmap/level/2''"
    by (simp add: API_def backend_def string_of_int_2)
  have k: "\<lparr> app_of = fetchLevelDetails_start backend (JNum 2) (app_of loaded),
            awaiting = awaiting loaded @ [AwaitLevel (JNum 2)] \<rparr> = clicked2"
    by (simp add: clicked2_def loaded_def)
  note t = C4_card_click_fetches_level_bundle
             [of "app_of loaded" level2 "level_card_of (app_of loaded) level2" loaded backend
                 "JNum 2" bundle2]
  from t card2_shown have "step backend loaded clicked2"
    unfolding i k by blast
  moreover from t have
    "requests (fetchLevelDetails backend (JNum 2) (Inr bundle2) (app_of loaded))
       = [''http://backend/api/roadmap'', ''http://backend/api/industry-insights'',
          ''http://backend/api/roadmap/level/2'']"
    unfolding r u by simp
  moreover from t have
    "levelDetails (fetchLevelDetails backend (JNum 2) (Inr bundle2) (app_of loaded)) = Some bundle2"
    "selectedLevel (fetchLevelDetails backend (JNum 2) (Inr bundle2) (app_of loaded)) = JNum 2"
    by blast+
  ultimately show ?thesis
    using m card2_shown i by blast
qed

text \<open>
  C5, as stated: the bundle stored for a request for X has \<^verbatim>\<open>level.id\<close> equal to X. The
  client stores the response without looking at it, so this depends on the server: when
  the server answers the request for level 2 with the bundle of level 1, that bundle is
  stored.
\<close>

theorem C5_mismatched_bundle_is_stored:
  "levelDetails (fetchLevelDetails backend (JNum 2) (Inr bundle1) (app_of loaded)) = Some bundle1 \<and>
   id_level (level bundle1) \<noteq> JNum 2"
  by (simp add: fetchLevelDetails_def fetchLevelDetails_start_def fetchLevelDetails_resume_def
      bundle1_def level1_def)

text \<open>
  C5, amended. The bundle stored in \<^verbatim>\<open>levelDetails\<close> for a fulfilled request for X is the
  bundle of the response, unchanged; so its \<^verbatim>\<open>level.id\<close> equals X whenever the response's
  does. The modal rendered from it is headed by the title and the number of the level
  of that bundle.
\<close>

theorem C5_stored_bundle_is_response:
  "levelDetails (fetchLevelDetails BACKEND_URL X (Inr response) s) = Some response \<and>
   (id_level (level response) = X \<longrightarrow>
      (\<exists>d. levelDetails (fetchLevelDetails BACKEND_URL X (Inr response) s) = Some d \<and>
           id_level (level d) = X)) \<and>
   (\<exists>m. LevelDetails (fetchLevelDetails BACKEND_URL X (Inr response) s) = Some m \<and>
        heading_modal m
          = title (level response) @ '' - Level '' @ string_of_int (level_number (level response)))"
  by (simp add: fetchLevelDetails_def fetchLevelDetails_start_def fetchLevelDetails_resume_def
      LevelDetails_def)

theorem C5_stored_bundle_is_response_witness:
  "id_level (level bundle2) = JNum 2 \<and>
   (\<exists>d. levelDetails (fetchLevelDetails backend (JNum 2) (Inr bundle2) (app_of loaded)) = Some d \<and>
        id_level (level d) = JNum 2) \<and>
   (\<exists>m. LevelDetails (fetchLevelDetails backend (JNum 2) (Inr bundle2) (app_of loaded)) = Some m \<and>
        heading_modal m = ''Connectivity - Level 2'')"
proof -
  have i: "id_level (level bundle2) = JNum 2"
    by (simp add: bundle2_def level2_def)
  have h: "title (level bundle2) @ '' - Level '' @ string_of_int (level_number (level bundle2))
             = ''Connectivity - Level 2''"
    by (simp add: bundle2_def level2_def string_of_int_2)
  show ?thesis
    using C5_stored_bundle_is_response [of backend "JNum 2" bundle2 "app_of loaded"] i h by simp
qed

text \<open>
  C10. A rejected level-detail request changes no state cell: \<^verbatim>\<open>selectedLevel\<close>,
  \<^verbatim>\<open>levelDetails\<close>, \<^verbatim>\<open>loading\<close>, both collections and the active tab keep their values, and
  the page is the same as before, so an open detail view stays and no new one opens.
\<close>

theorem C10_failed_level_fetch_changes_no_state:
  "selectedLevel (fetchLevelDetails BACKEND_URL X (Inl err) s) = selectedLevel s \<and>
   levelDetails (fetchLevelDetails BACKEND_URL X (Inl err) s) = levelDetails s \<and>
   loading (fetchLevelDetails BACKEND_URL X (Inl err) s) = loading s \<and>
   roadmapData (fetchLevelDetails BACKEND_URL X (Inl err) s) = roadmapData s \<and>
   industryInsights (fetchLevelDetails BACKEND_URL X (Inl err) s) = industryInsights s \<and>
   activeTab (fetchLevelDetails BACKEND_URL X (Inl err) s) = activeTab s \<and>
   App (fetchLevelDetails BACKEND_URL X (Inl err) s) = App s"
proof -
  have cells:
    "roadmapData (fetchLevelDetails BACKEND_URL X (Inl err) s) = roadmapData s"
    "selectedLevel (fetchLevelDetails BACKEND_URL X (Inl err) s) = selectedLevel s"
    "levelDetails (fetchLevelDetails BACKEND_URL X (Inl err) s) = levelDetails s"
    "industryInsights (fetchLevelDetails BACKEND_URL X (Inl err) s) = industryInsights s"
    "loading (fetchLevelDetails BACKEND_URL X (Inl err) s) = loading s"
    "activeTab (fetchLevelDetails BACKEND_URL X (Inl err) s) = activeTab s"
    by (simp_all add: fetchLevelDetails_def fetchLevelDetails_start_def fetchLevelDetails_resume_def)
  from cells have "App (fetchLevelDetails BACKEND_URL X (Inl err) s) = App s"
    by (rule App_cells)
  with cells show ?thesis by simp
qed

subsection \<open>The detail view\<close>

text \<open>
  The page never shows more than one detail view; it shows one exactly when the page is
  up, \<^verbatim>\<open>selectedLevel\<close> is truthy and \<^verbatim>\<open>levelDetails\<close> is not null. Selecting a level with a
  truthy identifier opens it, and the close button clears both cells and closes it.
\<close>

lemma detail_views_at_most_one: "detail_views (App s) \<le> 1"
  by (simp add: detail_views_App)

lemma selecting_truthy_level_opens_one_view:
  "\<not> loading s \<Longrightarrow> truthy X \<Longrightarrow>
   detail_views (App (fetchLevelDetails BACKEND_URL X (Inr response) s)) = 1"
  by (simp add: detail_views_App handler_defs)

lemma close_onClick_closes:
  "selectedLevel (close_onClick s) = JNull \<and> levelDetails (close_onClick s) = None \<and>
   detail_views (App (close_onClick s)) = 0"
  by (simp add: detail_views_App close_onClick_def)

lemma level2_opens_and_closes:
  "detail_views (App (app_of opened2)) = 1 \<and>
   detail_views (App (close_onClick (app_of opened2))) = 0"
  by (simp add: detail_views_App opened2_def clicked2_def loaded_def handler_defs)

text \<open>
  C6. Selecting a level should open exactly one detail view. The modal is guarded by
  \<^verbatim>\<open>selectedLevel && ...\<close>, which tests truthiness and not whether a level is selected. In
  the run where the level with the identifier 0 is clicked and its bundle arrives,
  \<^verbatim>\<open>selectedLevel\<close> is 0 and \<^verbatim>\<open>levelDetails\<close> holds the bundle, yet the page shows the text
  0 in place of the modal: no detail view opens.
\<close>

theorem C6_level_zero_opens_no_detail_view:
  "selectedLevel (app_of opened0) = JNum 0 \<and>
   levelDetails (app_of opened0) = Some bundle0 \<and>
   loading (app_of opened0) = False \<and>
   modal_shown (App (app_of opened0)) = Text ''0'' \<and>
   detail_views (App (app_of opened0)) = 0"
proof -
  have s: "selectedLevel (app_of opened0) = JNum 0" "levelDetails (app_of opened0) = Some bundle0"
    "\<not> loading (app_of opened0)"
    by (simp_all add: opened0_def clicked0_def loaded0_def handler_defs)
  have "modal_shown (App (app_of opened0)) = Text ''0''"
    by (simp add: App_def jsx_and_def s string_of_int_def string_of_nat.simps digit_char_def)
  moreover have "detail_views (App (app_of opened0)) = 0"
    by (simp add: detail_views_App s)
  ultimately show ?thesis using s by simp
qed

subsection \<open>Tabs\<close>

text \<open>
  C7. In every reachable state \<^verbatim>\<open>activeTab\<close> is \<^verbatim>\<open>'roadmap'\<close> or \<^verbatim>\<open>'insights'\<close>: it is
  \<^verbatim>\<open>'roadmap'\<close> on mounting and each tab button sets one of the two. Hence, when the
  spinner is gone, the page shows exactly one of the two top-level panels.
\<close>

theorem C7_one_panel_at_a_time:
  "reachable BACKEND_URL c \<Longrightarrow>
     activeTab (app_of (mount BACKEND_URL)) = ''roadmap'' \<and>
     (activeTab (app_of c) = ''roadmap'' \<or> activeTab (app_of c) = ''insights'') \<and>
     (\<not> loading (app_of c) \<longrightarrow> panels_rendered (App (app_of c)) = 1)"
proof -
  assume r: "reachable BACKEND_URL c"
  have t: "activeTab (app_of c) = ''roadmap'' \<or> activeTab (app_of c) = ''insights''"
    using r by (rule reachable_activeTab)
  have i: "activeTab (app_of (mount BACKEND_URL)) = ''roadmap''"
    by (simp add: mount_def fetchData_start_def initial_def)
  from t have "\<not> loading (app_of c) \<longrightarrow> panels_rendered (App (app_of c)) = 1"
    by (auto simp: panels_rendered_App)
  with t i show ?thesis by blast
qed

theorem C7_one_panel_at_a_time_witness:
  "reachable backend opened2 \<and> activeTab (app_of opened2) = ''roadmap'' \<and>
   \<not> loading (app_of opened2) \<and> panels_rendered (App (app_of opened2)) = 1"
proof -
  have l: "\<not> loading (app_of opened2)"
    by (simp add: opened2_def clicked2_def loaded_def handler_defs)
  have a: "activeTab (app_of opened2) = ''roadmap''"
    by (simp add: opened2_def clicked2_def loaded_def mount_def initial_def handler_defs)
  from C7_one_panel_at_a_time [OF reachable_opened2] l
  have "panels_rendered (App (app_of opened2)) = 1"
    by blast
  with reachable_opened2 l a show ?thesis by blast
qed

subsection \<open>Lookup tables\<close>

text \<open>
  C8. \<^verbatim>\<open>getLevelColor\<close> and \<^verbatim>\<open>getDifficultyIcon\<close> are total: each of the four difficulty
  strings selects its gradient class and its icon, and every other value gets the gray
  gradient and the books icon.
\<close>

theorem C8_lookup_tables:
  "getLevelColor (JStr ''beginner'') = ''from-green-400 to-green-600'' \<and>
   getLevelColor (JStr ''intermediate'') = ''from-blue-400 to-blue-600'' \<and>
   getLevelColor (JStr ''advanced'') = ''from-purple-400 to-purple-600'' \<and>
   getLevelColor (JStr ''expert'') = ''from-red-400 to-red-600'' \<and>
   getDifficultyIcon (JStr ''beginner'') = [CHR 0xF0, CHR 0x9F, CHR 0x8C, CHR 0xB1] \<and>
   getDifficultyIcon (JStr ''intermediate'') = [CHR 0xF0, CHR 0x9F, CHR 0x9A, CHR 0x80] \<and>
   getDifficultyIcon (JStr ''advanced'') = [CHR 0xE2, CHR 0x9A, CHR 0xA1] \<and>
   getDifficultyIcon (JStr ''expert'') = [CHR 0xF0, CHR 0x9F, CHR 0x91, CHR 0x91] \<and>
   (difficulty \<noteq> JStr ''beginner'' \<and> difficulty \<noteq> JStr ''intermediate'' \<and>
    difficulty \<noteq> JStr ''advanced'' \<and> difficulty \<noteq> JStr ''expert'' \<longrightarrow>
      getLevelColor difficulty = ''from-gray-400 to-gray-600'' \<and>
      getDifficultyIcon difficulty = [CHR 0xF0, CHR 0x9F, CHR 0x93, CHR 0x9A])"
  by (simp add: getLevelColor_def getDifficultyIcon_def icon_seedling_def icon_rocket_def
      icon_high_voltage_def icon_crown_def icon_books_def)

theorem C8_lookup_tables_witness:
  "JStr ''Beginner'' \<noteq> JStr ''beginner'' \<and> JStr ''Beginner'' \<noteq> JStr ''intermediate'' \<and>
   JStr ''Beginner'' \<noteq> JStr ''advanced'' \<and> JStr ''Beginner'' \<noteq> JStr ''expert'' \<and>
   getLevelColor (JStr ''Beginner'') = ''from-gray-400 to-gray-600'' \<and>
   getDifficultyIcon (JStr ''Beginner'') = [CHR 0xF0, CHR 0x9F, CHR 0x93, CHR 0x9A]"
  using C8_lookup_tables [of "JStr ''Beginner''"] by simp

end
